theory Spec2Isabelle
  imports Main "HOL-Library.Word"
begin

unbundle bit_operations_syntax

section \<open>Python values, exceptions and warnings\<close>

text \<open>
  The module \<^verbatim>\<open>reboundx/extras.py\<close> is glue over a native library reached through ctypes.
  The embedding keeps what the Python does: which exception it raises, which warnings it
  issues through \<^verbatim>\<open>warnings.warn\<close>, and which fields it assigns. What a native call gives back
  is an argument of the function that makes the call.

  Strings are byte strings. A name is looked up when the line that mentions it runs, first
  among the names the module binds and then among the builtins of the interpreter; a name
  found in neither raises \<^verbatim>\<open>NameError\<close>.
\<close>

datatype py_value = PyInt int | PyStr string | PyNone

text \<open>The argument an exception is raised with: a text, or an entry of a table.\<close>

datatype exc_arg = Msg string | Entry "string \<times> int"

datatype py_error =
    ValueError exc_arg
  | UnicodeError
  | KeyError string
  | AttributeError
  | NameError string

datatype category = RuntimeWarning

type_synonym warning = "string \<times> category"

subsection \<open>ctypes: \<^verbatim>\<open>c_int\<close> and pointers\<close>

type_synonym c_int = "32 word"

text \<open>\<^verbatim>\<open>c_int(v)\<close> keeps the low 32 bits of \<open>v\<close>; \<^verbatim>\<open>.value\<close> reads them as a signed integer.\<close>

definition c_int :: "int \<Rightarrow> c_int" where
  "c_int v = word_of_int v"

definition c_int_value :: "c_int \<Rightarrow> int" where
  "c_int_value w = sint w"

text \<open>A C pointer as the native code returns it: NULL, or the address of a structure.\<close>

datatype 'a pointer = NULL | Ptr 'a

text \<open>
  What a foreign call hands to Python. With \<^verbatim>\<open>restype = POINTER(T)\<close> the result is always a
  pointer instance, also for NULL; it is never the object \<^verbatim>\<open>None\<close>.
\<close>

datatype 'a py_ret = NoneObj | PointerObj "'a pointer"

definition restype_POINTER :: "'a pointer \<Rightarrow> 'a py_ret" where
  "restype_POINTER p = PointerObj p"

text \<open>\<^verbatim>\<open>x is None\<close>\<close>

fun is_None :: "'a py_ret \<Rightarrow> bool" where
  "is_None NoneObj = True"
| "is_None (PointerObj p) = False"

text \<open>The truth value of \<^verbatim>\<open>if ptr:\<close>: a NULL pointer is false.\<close>

fun truthy :: "'a py_ret \<Rightarrow> bool" where
  "truthy NoneObj = False"
| "truthy (PointerObj NULL) = False"
| "truthy (PointerObj (Ptr x)) = True"

text \<open>
  \<^verbatim>\<open>ptr.contents\<close>: ctypes refuses to dereference NULL and raises
  \<^verbatim>\<open>ValueError("NULL pointer access")\<close>; \<^verbatim>\<open>None\<close> has no such attribute.
\<close>

fun contents :: "'a py_ret \<Rightarrow> py_error + 'a" where
  "contents NoneObj = Inl AttributeError"
| "contents (PointerObj NULL) = Inl (ValueError (Msg ''NULL pointer access''))"
| "contents (PointerObj (Ptr x)) = Inr x"

subsection \<open>Strings\<close>

text \<open>\<^verbatim>\<open>s.lower()\<close> on a byte string: the letters A to Z move to a to z.\<close>

definition lower_char :: "char \<Rightarrow> char" where
  "lower_char c =
     (let n = (of_char c :: nat)
      in if 65 \<le> n \<and> n \<le> 90 then char_of (n + 32) else c)"

definition lower :: "string \<Rightarrow> string" where
  "lower s = map lower_char s"

text \<open>\<^verbatim>\<open>s.encode("ascii")\<close> fails on any character outside ASCII.\<close>

definition encode_ascii :: "string \<Rightarrow> py_error + string" where
  "encode_ascii s =
     (if list_all (\<lambda>c. (of_char c :: nat) < 128) s then Inr s else Inl UnicodeError)"

section \<open>The tables of the module\<close>

text \<open>Dictionaries are association lists in the order of the source.\<close>

definition INTEGRATORS :: "(string \<times> int) list" where
  "INTEGRATORS =
     [(''implicit_midpoint'', 0), (''rk4'', 1), (''euler'', 2), (''rk2'', 3), (''none'', -1)]"

definition REBX_TIMING :: "(string \<times> int) list" where
  "REBX_TIMING = [(''pre'', -1), (''post'', 1)]"

definition REBX_FORCE_TYPE :: "(string \<times> int) list" where
  "REBX_FORCE_TYPE = [(''none'', 0), (''pos'', 1), (''vel'', 2)]"

definition REBX_OPERATOR_TYPE :: "(string \<times> int) list" where
  "REBX_OPERATOR_TYPE = [(''none'', 0), (''updater'', 1), (''recorder'', 2)]"

definition REBX_BINARY_WARNINGS :: "(string \<times> int) list" where
  "REBX_BINARY_WARNINGS =
     [(''REBOUNDx Error: Cannot read binary file. Check filename and file contents.'', 1),
      (''REBOUNDx Error: Binary file was corrupt. Could not read.'', 2),
      (''REBOUNDx Warning: Binary file was saved with a different version of REBOUNDx. Binary format might have changed.'', 4),
      (''REBOUNDx Warning: At least one parameter in the binary file was not loaded. Check simulation.'', 8),
      (''REBOUNDx Warning: At least one particle's parameters in the binary file were not loaded. Check simulation.'', 16),
      (''REBOUNDx Warning: At least one effect and its parameters were not loaded from the binary file. Check simulation.'', 32),
      (''REBOUNDx Warning: At least one field in the binary field was not recognized, and not loaded. Probably binary was created with more recent REBOUNDx version than you are using.'', 64)]"

section \<open>The names of the module\<close>

text \<open>
  Every name that \<^verbatim>\<open>extras.py\<close> binds at module level: its imports, its tables, its classes
  and function-pointer types, the variables of its closing loop, and \<^verbatim>\<open>Params\<close>.
\<close>

definition module_globals :: "string list" where
  "module_globals =
     [''clibreboundx'', ''Structure'', ''c_double'', ''POINTER'', ''c_int'', ''c_uint'',
      ''c_long'', ''c_ulong'', ''c_void_p'', ''c_char_p'', ''CFUNCTYPE'', ''byref'',
      ''c_uint32'', ''cast'', ''c_char'', ''rebound'', ''reboundx'', ''warnings'',
      ''INTEGRATORS'', ''REBX_TIMING'', ''REBX_FORCE_TYPE'', ''REBX_OPERATOR_TYPE'',
      ''REBX_BINARY_WARNINGS'', ''Extras'', ''Param'', ''Node'', ''Operator'', ''STEPFUNCPTR'',
      ''Force'', ''FORCEFUNCPTR'', ''REBX_C_TO_CTYPES'', ''REBX_CTYPES'',
      ''REBX_C_PARAM_TYPES'', ''i'', ''pair'', ''Params'']"

text \<open>
  The builtins of Python 3 that the module refers to. The module encodes every string it
  hands to the native side (lines 59, 107, 148), as Python 3 requires.
\<close>

definition builtins :: "string list" where
  "builtins =
     [''hasattr'', ''isinstance'', ''int'', ''enumerate'', ''property'', ''classmethod'',
      ''ValueError'', ''RuntimeWarning'', ''None'']"

definition name_bound :: "string \<Rightarrow> bool" where
  "name_bound n = (n \<in> set module_globals \<or> n \<in> set builtins)"

section \<open>The structures\<close>

text \<open>
  Of each ctypes structure the record keeps the integer field the accessors work on; the
  pointer fields are left to the native side.
\<close>

record extras =
  integrator_field :: c_int

record operator =
  operator_type_field :: c_int

record force =
  force_type_field :: c_int

text \<open>The simulation of the host library, of which this module assigns one field.\<close>

record simulation =
  save_messages :: int

section \<open>\<^verbatim>\<open>Extras.from_file\<close>\<close>

text \<open>The loop of lines 62 to 64 over the table, \<open>wv\<close> being \<^verbatim>\<open>w.value\<close>.\<close>

fun warn_loop :: "int \<Rightarrow> (string \<times> int) list \<Rightarrow> warning list" where
  "warn_loop wv [] = []"
| "warn_loop wv ((message, value) # rest) =
     (if wv AND value \<noteq> 0 \<and> value \<noteq> 1
      then (message, RuntimeWarning) # warn_loop wv rest
      else warn_loop wv rest)"

text \<open>
  \<open>from_file sim filename p w\<close>: \<open>p\<close> is the pointer the native \<^verbatim>\<open>rebx_init\<close> returns, seen with
  the structure as the native loader left it, and \<open>w\<close> is the warnings word after the loader
  wrote into it. The result is what the call returns or raises, the warnings issued on the
  way, and the simulation afterwards. Only the assignment made by the Python is tracked in
  the simulation; what the native calls do to it is not part of the model.
\<close>

definition from_file ::
  "simulation \<Rightarrow> string \<Rightarrow> extras pointer \<Rightarrow> c_int
     \<Rightarrow> (py_error + extras) \<times> warning list \<times> simulation" where
  "from_file sim filename p w =
     (let extrasp = restype_POINTER p
      in case encode_ascii filename of
           Inl e \<Rightarrow> (Inl e, [], sim)
         | Inr _ \<Rightarrow>
             if is_None extrasp \<or> c_int_value w AND 1 \<noteq> 0
             then (Inl (ValueError (Entry (REBX_BINARY_WARNINGS ! 0))), [], sim)
             else
               let ws = warn_loop (c_int_value w) REBX_BINARY_WARNINGS
               in (case contents extrasp of
                     Inl e \<Rightarrow> (Inl e, ws, sim)
                   | Inr extras \<Rightarrow> (Inr extras, ws, sim\<lparr>save_messages := 1\<rparr>)))"

section \<open>The \<^verbatim>\<open>integrator\<close> property\<close>

text \<open>The getter's loop over \<^verbatim>\<open>INTEGRATORS.items()\<close>; past its end the raw integer is returned.\<close>

fun integrator_loop :: "int \<Rightarrow> (string \<times> int) list \<Rightarrow> py_value" where
  "integrator_loop i [] = PyInt i"
| "integrator_loop i ((name, i') # rest) =
     (if i = i' then PyStr name else integrator_loop i rest)"

definition integrator :: "extras \<Rightarrow> py_value" where
  "integrator self = integrator_loop (c_int_value (integrator_field self)) INTEGRATORS"

text \<open>
  The setter. For a value that is no integer the second test, line 94, runs and looks up
  the name \<^verbatim>\<open>basestring\<close>. Were the name bound to the string type, a string would take the
  branch of lines 95 to 99, and any other value would fall through with nothing assigned.
\<close>

fun integrator_set :: "extras \<Rightarrow> py_value \<Rightarrow> (py_error + unit) \<times> extras" where
  "integrator_set self (PyInt v) = (Inr (), self\<lparr>integrator_field := c_int v\<rparr>)"
| "integrator_set self value =
     (if \<not> name_bound ''basestring'' then (Inl (NameError ''basestring''), self)
      else (case value of
              PyStr s \<Rightarrow>
                (case map_of INTEGRATORS (lower s) of
                   Some i \<Rightarrow> (Inr (), self\<lparr>integrator_field := c_int i\<rparr>)
                 | None \<Rightarrow> (Inl (ValueError (Msg ''Warning. Integrator not found.'')), self))
            | _ \<Rightarrow> (Inr (), self)))"

section \<open>\<^verbatim>\<open>Operator.operator_type\<close> and \<^verbatim>\<open>Force.force_type\<close>\<close>

text \<open>
  The getters return the field. The setters index the table with the lowercased value: a
  missing key is a \<^verbatim>\<open>KeyError\<close>, and a value without \<^verbatim>\<open>lower\<close> an \<^verbatim>\<open>AttributeError\<close>.
\<close>

definition operator_type :: "operator \<Rightarrow> int" where
  "operator_type self = c_int_value (operator_type_field self)"

fun operator_type_set :: "operator \<Rightarrow> py_value \<Rightarrow> (py_error + unit) \<times> operator" where
  "operator_type_set self (PyStr s) =
     (case map_of REBX_OPERATOR_TYPE (lower s) of
        Some i \<Rightarrow> (Inr (), self\<lparr>operator_type_field := c_int i\<rparr>)
      | None \<Rightarrow> (Inl (KeyError (lower s)), self))"
| "operator_type_set self v = (Inl AttributeError, self)"

definition force_type :: "force \<Rightarrow> int" where
  "force_type self = c_int_value (force_type_field self)"

fun force_type_set :: "force \<Rightarrow> py_value \<Rightarrow> (py_error + unit) \<times> force" where
  "force_type_set self (PyStr s) =
     (case map_of REBX_FORCE_TYPE (lower s) of
        Some i \<Rightarrow> (Inr (), self\<lparr>force_type_field := c_int i\<rparr>)
      | None \<Rightarrow> (Inl (KeyError (lower s)), self))"
| "force_type_set self v = (Inl AttributeError, self)"

section \<open>\<^verbatim>\<open>Extras.get_effect\<close>\<close>

text \<open>
  \<open>get_effect name p\<close>: \<open>p\<close> is the pointer the native \<^verbatim>\<open>rebx_get_effect\<close> would return for the
  name. Line 147 comes first: the right-hand side \<^verbatim>\<open>POINTER(Effect)\<close> looks up the name
  \<^verbatim>\<open>Effect\<close> before anything is asked of the native side. The result is the effect, or
  \<^verbatim>\<open>None\<close> (here \<open>None\<close>) from the bare \<^verbatim>\<open>return\<close>.
\<close>

definition get_effect ::
  "string \<Rightarrow> 'effect pointer \<Rightarrow> (py_error + 'effect option) \<times> warning list" where
  "get_effect name p =
     (if \<not> name_bound ''Effect'' then (Inl (NameError ''Effect''), [])
      else (case encode_ascii name of
              Inl e \<Rightarrow> (Inl e, [])
            | Inr _ \<Rightarrow>
                let ptr = restype_POINTER p
                in if truthy ptr
                   then (case contents ptr of
                           Inl e \<Rightarrow> (Inl e, [])
                         | Inr x \<Rightarrow> (Inr (Some x), []))
                   else (Inr None, [(''Parameter '' @ name @ '' not found'', RuntimeWarning)])))"

section \<open>Shared facts\<close>

text \<open>The test \<^verbatim>\<open>w.value & 2**n\<close> reads bit \<open>n\<close> of the 32-bit word, below the sign bit.\<close>

lemma c_int_value_AND_pow2: "n < 31 \<Longrightarrow> (c_int_value w AND 2 ^ n \<noteq> 0) = bit w n"
  unfolding c_int_value_def by (simp add: bit_sint_iff and_exp_eq_0_iff_not_bit)

text \<open>
  Neither \<^verbatim>\<open>basestring\<close>, a builtin of Python 2 only, nor \<^verbatim>\<open>Effect\<close> is bound: each occurs
  once in the module, where it is read.
\<close>

lemma basestring_unbound: "\<not> name_bound ''basestring''"
  by (simp add: name_bound_def module_globals_def builtins_def)

lemma Effect_unbound: "\<not> name_bound ''Effect''"
  by (simp add: name_bound_def module_globals_def builtins_def)

text \<open>So the setter raises for every value that is no integer, and assigns nothing.\<close>

lemma integrator_set_not_int:
  "integrator_set self (PyStr s) = (Inl (NameError ''basestring''), self)"
  "integrator_set self PyNone = (Inl (NameError ''basestring''), self)"
  by (simp_all add: basestring_unbound)

text \<open>The keys of the enum tables are in lower case already.\<close>

lemma lower_keys:
  "lower ''implicit_midpoint'' = ''implicit_midpoint''" "lower ''rk4'' = ''rk4''"
  "lower ''euler'' = ''euler''" "lower ''rk2'' = ''rk2''" "lower ''none'' = ''none''"
  "lower ''pos'' = ''pos''" "lower ''vel'' = ''vel''"
  "lower ''updater'' = ''updater''" "lower ''recorder'' = ''recorder''"
  by (simp_all add: lower_def lower_char_def)

text \<open>
  The getter's loop finds the name of a value whatever the order of the table, as long as
  no two names share a value; the order in which a dictionary hands out its items plays no part.
\<close>

lemma integrator_loop_absent:
  "i \<notin> snd ` set tbl \<Longrightarrow> integrator_loop i tbl = PyInt i"
  by (induction i tbl rule: integrator_loop.induct) auto

lemma integrator_loop_found:
  "distinct (map snd tbl) \<Longrightarrow> (name, v) \<in> set tbl \<Longrightarrow> integrator_loop v tbl = PyStr name"
proof (induction v tbl rule: integrator_loop.induct)
  case (1 i)
  then show ?case by simp
next
  case (2 i n i' rest)
  show ?case
  proof (cases "i = i'")
    case True
    with 2(2) have "i \<notin> snd ` set rest" by simp
    with 2(3) True have "name = n" by force
    with True show ?thesis by simp
  next
    case False
    with 2 show ?thesis by auto
  qed
qed

lemma distinct_integrator_values: "distinct (map snd INTEGRATORS)"
  by (simp add: INTEGRATORS_def)

section \<open>The \<^verbatim>\<open>integrator\<close> property: decoding, round trip, unknown names\<close>

text \<open>
  C3. The getter decodes the field: when the field holds the value that \<open>INTEGRATORS\<close> gives
  to a name, reading the property returns that name; when it holds an integer that is not
  in the table, reading returns the integer itself.
\<close>

theorem integrator_decodes:
  "((name, v) \<in> set INTEGRATORS \<and> c_int_value (integrator_field self) = v
      \<longrightarrow> integrator self = PyStr name) \<and>
   (c_int_value (integrator_field self) \<notin> snd ` set INTEGRATORS
      \<longrightarrow> integrator self = PyInt (c_int_value (integrator_field self)))"
proof (intro conjI impI)
  assume "(name, v) \<in> set INTEGRATORS \<and> c_int_value (integrator_field self) = v"
  then show "integrator self = PyStr name"
    using integrator_loop_found [OF distinct_integrator_values, of name v]
    by (simp add: integrator_def)
next
  assume "c_int_value (integrator_field self) \<notin> snd ` set INTEGRATORS"
  then show "integrator self = PyInt (c_int_value (integrator_field self))"
    unfolding integrator_def by (rule integrator_loop_absent)
qed

theorem integrator_decodes_witness:
  "(''rk4'', 1) \<in> set INTEGRATORS \<and> c_int_value (integrator_field \<lparr>integrator_field = 1\<rparr>) = 1 \<and>
   integrator \<lparr>integrator_field = 1\<rparr> = PyStr ''rk4'' \<and>
   c_int_value (integrator_field \<lparr>integrator_field = 7\<rparr>) \<notin> snd ` set INTEGRATORS \<and>
   integrator \<lparr>integrator_field = 7\<rparr> = PyInt 7"
  using integrator_decodes [of "''rk4''" 1 "\<lparr>integrator_field = 1\<rparr>"]
    integrator_decodes [of "''rk4''" 1 "\<lparr>integrator_field = 7\<rparr>"]
  by (simp add: INTEGRATORS_def c_int_value_def)



section \<open>Facts about \<^verbatim>\<open>from_file\<close> shared by the claims\<close>

text \<open>The messages of the table are pairwise different, and its codes are the powers of two up to 64.\<close>

lemma distinct_messages: "distinct (map fst REBX_BINARY_WARNINGS)"
  by (simp add: REBX_BINARY_WARNINGS_def)

lemma table_values: "map snd REBX_BINARY_WARNINGS = [1, 2, 4, 8, 16, 32, 64]"
  by (simp add: REBX_BINARY_WARNINGS_def)

lemma table_others:
  assumes "(m, v) \<in> set REBX_BINARY_WARNINGS" and "v \<noteq> 1"
  shows "v \<in> {2, 4, 8, 16, 32, 64}"
proof -
  from assms(1) have "v \<in> set (map snd REBX_BINARY_WARNINGS)" by force
  with assms(2) show ?thesis unfolding table_values by simp
qed

text \<open>The loop issues one warning for every entry that passes its test, and nothing else.\<close>

lemma set_warn_loop:
  "set (warn_loop wv tbl) =
     {(m, RuntimeWarning) | m v. (m, v) \<in> set tbl \<and> wv AND v \<noteq> 0 \<and> v \<noteq> 1}"
  by (induction wv tbl rule: warn_loop.induct) auto

lemma count_warn_loop_absent:
  "m \<notin> fst ` set tbl \<Longrightarrow> count_list (warn_loop wv tbl) (m, c) = 0"
  by (induction wv tbl rule: warn_loop.induct) auto

lemma count_warn_loop:
  "distinct (map fst tbl) \<Longrightarrow> (m, v) \<in> set tbl \<Longrightarrow>
     count_list (warn_loop wv tbl) (m, RuntimeWarning) = (if wv AND v \<noteq> 0 \<and> v \<noteq> 1 then 1 else 0)"
proof (induction wv tbl rule: warn_loop.induct)
  case (1 wv)
  then show ?case by simp
next
  case (2 wv message val rest)
  show ?case
  proof (cases "m = message")
    case True
    with 2(3,4) have v: "v = val" and absent: "m \<notin> fst ` set rest"
      by (auto simp: image_iff)
    show ?thesis using True v count_warn_loop_absent [OF absent] by simp
  next
    case False
    with 2 show ?thesis by auto
  qed
qed

text \<open>The four ways through \<^verbatim>\<open>from_file\<close>, once the file name is encoded or not.\<close>

lemma from_file_passes:
  assumes "encode_ascii filename = Inr b" and "c_int_value w AND 1 = 0"
  shows "from_file sim filename (Ptr e) w =
           (Inr e, warn_loop (c_int_value w) REBX_BINARY_WARNINGS, sim\<lparr>save_messages := 1\<rparr>)"
  using assms by (simp add: from_file_def restype_POINTER_def)

lemma from_file_null:
  assumes "encode_ascii filename = Inr b" and "c_int_value w AND 1 = 0"
  shows "from_file sim filename NULL w =
           (Inl (ValueError (Msg ''NULL pointer access'')),
            warn_loop (c_int_value w) REBX_BINARY_WARNINGS, sim)"
  using assms by (simp add: from_file_def restype_POINTER_def)

lemma from_file_raises:
  assumes "encode_ascii filename = Inr b" and "c_int_value w AND 1 \<noteq> 0"
  shows "from_file sim filename p w =
           (Inl (ValueError (Entry (REBX_BINARY_WARNINGS ! 0))), [], sim)"
  using assms by (simp add: from_file_def restype_POINTER_def)

lemma from_file_encode_fails:
  assumes "encode_ascii filename = Inl err"
  shows "from_file sim filename p w = (Inl err, [], sim)"
  using assms by (simp add: from_file_def)

section \<open>\<^verbatim>\<open>from_file\<close>: errors, warnings and the simulation\<close>

text \<open>
  C1, as the claim states it, fails: a word with the code 2 set and the code 1 clear raises
  nothing. The corrupt-file message goes out as a \<^verbatim>\<open>RuntimeWarning\<close> and the call returns the
  structure.
\<close>

theorem from_file_corrupt_counterexample:
  "c_int_value 2 AND 2 \<noteq> 0 \<and>
   from_file \<lparr>save_messages = 0\<rparr> ''rebx.bin'' (Ptr \<lparr>integrator_field = 0\<rparr>) 2 =
     (Inr \<lparr>integrator_field = 0\<rparr>,
      [(''REBOUNDx Error: Binary file was corrupt. Could not read.'', RuntimeWarning)],
      \<lparr>save_messages = 1\<rparr>)"
  by (simp add: from_file_def encode_ascii_def restype_POINTER_def REBX_BINARY_WARNINGS_def
      c_int_value_def)

text \<open>
  C1, amended. When the code 1 is set in the warnings word, \<^verbatim>\<open>from_file\<close> raises \<^verbatim>\<open>ValueError\<close> with
  the first entry of the table, issues no warning and returns no structure. The code 2 alone
  does not raise: with the code 1 clear and a pointer that is not NULL, the call returns the
  structure and the corrupt-file message is issued once as a \<^verbatim>\<open>RuntimeWarning\<close>.
\<close>

theorem from_file_major_error:
  assumes "encode_ascii filename = Inr b"
  shows "(c_int_value w AND 1 \<noteq> 0 \<longrightarrow>
            from_file sim filename p w =
              (Inl (ValueError (Entry
                 (''REBOUNDx Error: Cannot read binary file. Check filename and file contents.'', 1))),
               [], sim)) \<and>
         (c_int_value w AND 1 = 0 \<and> c_int_value w AND 2 \<noteq> 0 \<longrightarrow>
            fst (from_file sim filename (Ptr e) w) = Inr e \<and>
            count_list (fst (snd (from_file sim filename (Ptr e) w)))
              (''REBOUNDx Error: Binary file was corrupt. Could not read.'', RuntimeWarning) = 1)"
proof (intro conjI impI)
  have first: "REBX_BINARY_WARNINGS ! 0 =
      (''REBOUNDx Error: Cannot read binary file. Check filename and file contents.'', 1)"
    by (simp add: REBX_BINARY_WARNINGS_def)
  assume "c_int_value w AND 1 \<noteq> 0"
  from from_file_raises [OF assms this]
  show "from_file sim filename p w =
          (Inl (ValueError (Entry
             (''REBOUNDx Error: Cannot read binary file. Check filename and file contents.'', 1))),
           [], sim)"
    unfolding first .
next
  assume h: "c_int_value w AND 1 = 0 \<and> c_int_value w AND 2 \<noteq> 0"
  then have run: "from_file sim filename (Ptr e) w =
      (Inr e, warn_loop (c_int_value w) REBX_BINARY_WARNINGS, sim\<lparr>save_messages := 1\<rparr>)"
    using from_file_passes [OF assms] by blast
  show "fst (from_file sim filename (Ptr e) w) = Inr e" by (simp add: run)
  have mem: "(''REBOUNDx Error: Binary file was corrupt. Could not read.'', 2) \<in> set REBX_BINARY_WARNINGS"
    by (simp add: REBX_BINARY_WARNINGS_def)
  from count_warn_loop [OF distinct_messages mem, of "c_int_value w"] h
  show "count_list (fst (snd (from_file sim filename (Ptr e) w)))
          (''REBOUNDx Error: Binary file was corrupt. Could not read.'', RuntimeWarning) = 1"
    by (simp add: run)
qed

theorem from_file_major_error_witness:
  "encode_ascii ''rebx.bin'' = Inr ''rebx.bin'' \<and> c_int_value 3 AND 1 \<noteq> 0 \<and>
   from_file \<lparr>save_messages = 0\<rparr> ''rebx.bin'' (Ptr \<lparr>integrator_field = 0\<rparr>) 3 =
     (Inl (ValueError (Entry
        (''REBOUNDx Error: Cannot read binary file. Check filename and file contents.'', 1))),
      [], \<lparr>save_messages = 0\<rparr>) \<and>
   c_int_value 2 AND 1 = 0 \<and> c_int_value 2 AND 2 \<noteq> 0 \<and>
   fst (from_file \<lparr>save_messages = 0\<rparr> ''rebx.bin'' (Ptr \<lparr>integrator_field = 0\<rparr>) 2) =
     Inr \<lparr>integrator_field = 0\<rparr>"
proof -
  have enc: "encode_ascii ''rebx.bin'' = Inr ''rebx.bin''" by (simp add: encode_ascii_def)
  have b: "c_int_value 3 AND 1 \<noteq> 0" "c_int_value 2 AND 1 = 0" "c_int_value 2 AND 2 \<noteq> 0"
    by (simp_all add: c_int_value_def)
  show ?thesis
    using enc b
      from_file_major_error [OF enc, of 3 "\<lparr>save_messages = 0\<rparr>" "Ptr \<lparr>integrator_field = 0\<rparr>"]
      from_file_major_error [OF enc, of 2 "\<lparr>save_messages = 0\<rparr>" _ "\<lparr>integrator_field = 0\<rparr>"]
    by simp
qed

text \<open>
  C2. When the code 1 is clear and the native pointer holds a structure, \<^verbatim>\<open>from_file\<close> returns
  that structure, and the warnings it issued are these: for every entry of the table with a
  code among 2, 4, 8, 16, 32, 64, its message is issued exactly once as a \<^verbatim>\<open>RuntimeWarning\<close> when
  the code is set in the word and not at all when it is clear; every warning issued is such
  an entry with its code set. Each of the six codes has an entry.
\<close>

theorem from_file_warnings:
  assumes "encode_ascii filename = Inr b" and "c_int_value w AND 1 = 0"
  shows "fst (from_file sim filename (Ptr e) w) = Inr e \<and>
         {2, 4, 8, 16, 32, 64} \<subseteq> snd ` set REBX_BINARY_WARNINGS \<and>
         (\<forall>(m, v) \<in> set REBX_BINARY_WARNINGS. v \<in> {2, 4, 8, 16, 32, 64} \<longrightarrow>
            count_list (fst (snd (from_file sim filename (Ptr e) w))) (m, RuntimeWarning) =
              (if c_int_value w AND v \<noteq> 0 then 1 else 0)) \<and>
         (\<forall>x \<in> set (fst (snd (from_file sim filename (Ptr e) w))).
            \<exists>(m, v) \<in> set REBX_BINARY_WARNINGS.
              v \<in> {2, 4, 8, 16, 32, 64} \<and> c_int_value w AND v \<noteq> 0 \<and> x = (m, RuntimeWarning))"
proof -
  let ?ws = "warn_loop (c_int_value w) REBX_BINARY_WARNINGS"
  have run: "from_file sim filename (Ptr e) w = (Inr e, ?ws, sim\<lparr>save_messages := 1\<rparr>)"
    by (rule from_file_passes [OF assms])
  have "set (map snd REBX_BINARY_WARNINGS) = {1, 2, 4, 8, 16, 32, 64}"
    unfolding table_values by simp
  then have bits: "{2, 4, 8, 16, 32, 64} \<subseteq> snd ` set REBX_BINARY_WARNINGS"
    by auto
  have once: "\<forall>(m, v) \<in> set REBX_BINARY_WARNINGS. v \<in> {2, 4, 8, 16, 32, 64} \<longrightarrow>
      count_list ?ws (m, RuntimeWarning) = (if c_int_value w AND v \<noteq> 0 then 1 else 0)"
  proof (intro ballI, clarify)
    fix m :: string and v :: int
    assume mem: "(m, v) \<in> set REBX_BINARY_WARNINGS" and v: "v \<in> {2, 4, 8, 16, 32, 64}"
    from v have "v \<noteq> 1" by auto
    with count_warn_loop [OF distinct_messages mem, of "c_int_value w"]
    show "count_list ?ws (m, RuntimeWarning) = (if c_int_value w AND v \<noteq> 0 then 1 else 0)"
      by simp
  qed
  have only: "\<forall>x \<in> set ?ws. \<exists>(m, v) \<in> set REBX_BINARY_WARNINGS.
                v \<in> {2, 4, 8, 16, 32, 64} \<and> c_int_value w AND v \<noteq> 0 \<and> x = (m, RuntimeWarning)"
  proof
    fix x assume "x \<in> set ?ws"
    then obtain m v where mem: "(m, v) \<in> set REBX_BINARY_WARNINGS" and rest: "c_int_value w AND v \<noteq> 0"
      "v \<noteq> 1" "x = (m, RuntimeWarning)"
      unfolding set_warn_loop by blast
    from table_others [OF mem rest(2)] rest mem
    show "\<exists>(m, v) \<in> set REBX_BINARY_WARNINGS.
                v \<in> {2, 4, 8, 16, 32, 64} \<and> c_int_value w AND v \<noteq> 0 \<and> x = (m, RuntimeWarning)"
      by (intro bexI [of _ "(m, v)"]) simp_all
  qed
  show ?thesis unfolding run fst_conv snd_conv by (intro conjI refl bits once only)
qed

theorem from_file_warnings_witness:
  "encode_ascii ''rebx.bin'' = Inr ''rebx.bin'' \<and> c_int_value 6 AND 1 = 0 \<and>
   REBX_BINARY_WARNINGS ! 1 \<in> set REBX_BINARY_WARNINGS \<and>
   REBX_BINARY_WARNINGS ! 3 \<in> set REBX_BINARY_WARNINGS \<and>
   fst (from_file \<lparr>save_messages = 0\<rparr> ''rebx.bin'' (Ptr \<lparr>integrator_field = 0\<rparr>) 6) =
     Inr \<lparr>integrator_field = 0\<rparr> \<and>
   count_list (fst (snd (from_file \<lparr>save_messages = 0\<rparr> ''rebx.bin'' (Ptr \<lparr>integrator_field = 0\<rparr>) 6)))
     (''REBOUNDx Error: Binary file was corrupt. Could not read.'', RuntimeWarning) = 1 \<and>
   count_list (fst (snd (from_file \<lparr>save_messages = 0\<rparr> ''rebx.bin'' (Ptr \<lparr>integrator_field = 0\<rparr>) 6)))
     (''REBOUNDx Warning: At least one parameter in the binary file was not loaded. Check simulation.'', RuntimeWarning) = 0"
proof -
  have enc: "encode_ascii ''rebx.bin'' = Inr ''rebx.bin''" by (simp add: encode_ascii_def)
  have clear: "c_int_value 6 AND 1 = 0" by (simp add: c_int_value_def)
  have m1: "(''REBOUNDx Error: Binary file was corrupt. Could not read.'', 2) \<in> set REBX_BINARY_WARNINGS"
    by (simp add: REBX_BINARY_WARNINGS_def)
  have m3: "(''REBOUNDx Warning: At least one parameter in the binary file was not loaded. Check simulation.'', 8)
              \<in> set REBX_BINARY_WARNINGS"
    by (simp add: REBX_BINARY_WARNINGS_def)
  have i1: "REBX_BINARY_WARNINGS ! 1 \<in> set REBX_BINARY_WARNINGS"
    and i3: "REBX_BINARY_WARNINGS ! 3 \<in> set REBX_BINARY_WARNINGS"
    by (simp_all add: REBX_BINARY_WARNINGS_def)
  have b2: "c_int_value 6 AND 2 \<noteq> 0" and b8: "c_int_value 6 AND 8 = 0"
    by (simp_all add: c_int_value_def)
  note th = from_file_warnings [OF enc clear, of "\<lparr>save_messages = 0\<rparr>" "\<lparr>integrator_field = 0\<rparr>"]
  from th have r: "fst (from_file \<lparr>save_messages = 0\<rparr> ''rebx.bin'' (Ptr \<lparr>integrator_field = 0\<rparr>) 6) =
     Inr \<lparr>integrator_field = 0\<rparr>" by (rule conjunct1)
  from th have all: "\<forall>(m, v) \<in> set REBX_BINARY_WARNINGS. v \<in> {2, 4, 8, 16, 32, 64} \<longrightarrow>
            count_list (fst (snd (from_file \<lparr>save_messages = 0\<rparr> ''rebx.bin'' (Ptr \<lparr>integrator_field = 0\<rparr>) 6))) (m, RuntimeWarning) =
              (if c_int_value 6 AND v \<noteq> 0 then 1 else 0)" by blast
  from bspec [OF all m1] b2 have c1: "count_list (fst (snd (from_file \<lparr>save_messages = 0\<rparr> ''rebx.bin'' (Ptr \<lparr>integrator_field = 0\<rparr>) 6)))
     (''REBOUNDx Error: Binary file was corrupt. Could not read.'', RuntimeWarning) = 1" by simp
  from bspec [OF all m3] b8 have c3: "count_list (fst (snd (from_file \<lparr>save_messages = 0\<rparr> ''rebx.bin'' (Ptr \<lparr>integrator_field = 0\<rparr>) 6)))
     (''REBOUNDx Warning: At least one parameter in the binary file was not loaded. Check simulation.'', RuntimeWarning) = 0" by simp
  show ?thesis by (intro conjI enc clear i1 i3 r c1 c3)
qed

text \<open>
  C8, as the claim states it, fails in one place: with a NULL pointer and the code 1 clear
  the call does raise a \<^verbatim>\<open>ValueError\<close>, the one of the dereference.
\<close>

theorem from_file_null_pointer_counterexample:
  "c_int_value 0 AND 1 = 0 \<and>
   from_file \<lparr>save_messages = 0\<rparr> ''rebx.bin'' NULL 0 =
     (Inl (ValueError (Msg ''NULL pointer access'')), [], \<lparr>save_messages = 0\<rparr>)"
  by (simp add: from_file_def encode_ascii_def restype_POINTER_def REBX_BINARY_WARNINGS_def
      c_int_value_def)

text \<open>
  C8, amended. The test \<^verbatim>\<open>extrasp is None\<close> never holds for the pointer a foreign call returns,
  so whether the guard of line 60 raises its \<^verbatim>\<open>ValueError\<close> is decided by the code 1 of the
  warnings word alone. A NULL pointer with the code 1 clear passes the guard, the warnings
  loop runs, and the call ends in the dereference \<^verbatim>\<open>extrasp.contents\<close>, which ctypes refuses
  with \<^verbatim>\<open>ValueError("NULL pointer access")\<close>; the simulation is not assigned.
\<close>

theorem from_file_guard:
  assumes "encode_ascii filename = Inr b"
  shows "\<not> is_None (restype_POINTER p) \<and>
         (fst (from_file sim filename p w) = Inl (ValueError (Entry (REBX_BINARY_WARNINGS ! 0)))
            \<longleftrightarrow> c_int_value w AND 1 \<noteq> 0) \<and>
         (c_int_value w AND 1 = 0 \<longrightarrow>
            fst (from_file sim filename NULL w) = contents (restype_POINTER NULL) \<and>
            from_file sim filename NULL w =
              (Inl (ValueError (Msg ''NULL pointer access'')),
               warn_loop (c_int_value w) REBX_BINARY_WARNINGS, sim))"
proof (intro conjI impI)
  show "\<not> is_None (restype_POINTER p)" by (simp add: restype_POINTER_def)
  show "fst (from_file sim filename p w) = Inl (ValueError (Entry (REBX_BINARY_WARNINGS ! 0)))
          \<longleftrightarrow> c_int_value w AND 1 \<noteq> 0"
  proof (cases "c_int_value w AND 1 = 0")
    case True
    then show ?thesis
      using from_file_passes [OF assms True] from_file_null [OF assms True]
      by (cases p) simp_all
  next
    case False
    then show ?thesis using from_file_raises [OF assms False] by simp
  qed
next
  assume clear: "c_int_value w AND 1 = 0"
  show "from_file sim filename NULL w =
          (Inl (ValueError (Msg ''NULL pointer access'')),
           warn_loop (c_int_value w) REBX_BINARY_WARNINGS, sim)"
    by (rule from_file_null [OF assms clear])
  then show "fst (from_file sim filename NULL w) = contents (restype_POINTER NULL)"
    by (simp add: restype_POINTER_def)
qed

theorem from_file_guard_witness:
  "encode_ascii ''rebx.bin'' = Inr ''rebx.bin'' \<and> c_int_value 4 AND 1 = 0 \<and>
   \<not> is_None (restype_POINTER (NULL :: extras pointer)) \<and>
   fst (from_file \<lparr>save_messages = 0\<rparr> ''rebx.bin'' NULL 4) \<noteq>
     Inl (ValueError (Entry (REBX_BINARY_WARNINGS ! 0))) \<and>
   from_file \<lparr>save_messages = 0\<rparr> ''rebx.bin'' NULL 4 =
     (Inl (ValueError (Msg ''NULL pointer access'')),
      warn_loop (c_int_value 4) REBX_BINARY_WARNINGS, \<lparr>save_messages = 0\<rparr>)"
proof -
  have enc: "encode_ascii ''rebx.bin'' = Inr ''rebx.bin''" by (simp add: encode_ascii_def)
  have clear: "c_int_value 4 AND 1 = 0" by (simp add: c_int_value_def)
  show ?thesis
    using enc clear from_file_guard [OF enc, of NULL "\<lparr>save_messages = 0\<rparr>" 4]
    by simp
qed

text \<open>
  C10. \<^verbatim>\<open>from_file\<close> assigns \<^verbatim>\<open>sim.save_messages\<close> on the successful path only: whenever the
  call raises, the simulation is as it was, and whenever it returns, the field is 1.
\<close>

theorem from_file_save_messages:
  "(fst (from_file sim filename p w) = Inl err \<longrightarrow> snd (snd (from_file sim filename p w)) = sim) \<and>
   (fst (from_file sim filename p w) = Inr x \<longrightarrow>
      snd (snd (from_file sim filename p w)) = sim\<lparr>save_messages := 1\<rparr>)"
proof (cases "encode_ascii filename")
  case (Inl a)
  then show ?thesis by (simp add: from_file_encode_fails)
next
  case (Inr b)
  show ?thesis
  proof (cases "c_int_value w AND 1 = 0")
    case True
    then show ?thesis
      using from_file_passes [OF Inr True] from_file_null [OF Inr True]
      by (cases p) simp_all
  next
    case False
    then show ?thesis using from_file_raises [OF Inr False] by simp
  qed
qed

theorem from_file_save_messages_witness:
  "fst (from_file \<lparr>save_messages = 0\<rparr> ''rebx.bin'' (Ptr \<lparr>integrator_field = 0\<rparr>) 1) =
     Inl (ValueError (Entry (REBX_BINARY_WARNINGS ! 0))) \<and>
   snd (snd (from_file \<lparr>save_messages = 0\<rparr> ''rebx.bin'' (Ptr \<lparr>integrator_field = 0\<rparr>) 1)) =
     \<lparr>save_messages = 0\<rparr> \<and>
   fst (from_file \<lparr>save_messages = 0\<rparr> ''rebx.bin'' (Ptr \<lparr>integrator_field = 0\<rparr>) 0) =
     Inr \<lparr>integrator_field = 0\<rparr> \<and>
   snd (snd (from_file \<lparr>save_messages = 0\<rparr> ''rebx.bin'' (Ptr \<lparr>integrator_field = 0\<rparr>) 0)) =
     \<lparr>save_messages = 1\<rparr>"
proof -
  have r1: "fst (from_file \<lparr>save_messages = 0\<rparr> ''rebx.bin'' (Ptr \<lparr>integrator_field = 0\<rparr>) 1) =
     Inl (ValueError (Entry (REBX_BINARY_WARNINGS ! 0)))"
    by (simp add: from_file_def encode_ascii_def restype_POINTER_def c_int_value_def)
  have r0: "fst (from_file \<lparr>save_messages = 0\<rparr> ''rebx.bin'' (Ptr \<lparr>integrator_field = 0\<rparr>) 0) =
     Inr \<lparr>integrator_field = 0\<rparr>"
    by (simp add: from_file_def encode_ascii_def restype_POINTER_def c_int_value_def)
  show ?thesis
    using r1 r0
      from_file_save_messages [of "\<lparr>save_messages = 0\<rparr>" "''rebx.bin''" "Ptr \<lparr>integrator_field = 0\<rparr>" 1
        "ValueError (Entry (REBX_BINARY_WARNINGS ! 0))"]
      from_file_save_messages [of "\<lparr>save_messages = 0\<rparr>" "''rebx.bin''" "Ptr \<lparr>integrator_field = 0\<rparr>" 0
        _ "\<lparr>integrator_field = 0\<rparr>"]
    by simp
qed

section \<open>The type setters and \<^verbatim>\<open>get_effect\<close>\<close>

text \<open>
  C6. The setters of \<^verbatim>\<open>force_type\<close> and \<^verbatim>\<open>operator_type\<close> encode names without regard to letter
  case: for a string equal, up to case, to a key of the table, the assignment succeeds, the
  field holds the key's integer, and reading the property returns that integer.
\<close>

theorem type_setters_encode:
  "((key, v) \<in> set REBX_FORCE_TYPE \<and> lower s = lower key \<longrightarrow>
      force_type_set f (PyStr s) = (Inr (), f\<lparr>force_type_field := c_int v\<rparr>) \<and>
      c_int_value (force_type_field (snd (force_type_set f (PyStr s)))) = v \<and>
      force_type (snd (force_type_set f (PyStr s))) = v) \<and>
   ((key, v) \<in> set REBX_OPERATOR_TYPE \<and> lower s = lower key \<longrightarrow>
      operator_type_set ope (PyStr s) = (Inr (), ope\<lparr>operator_type_field := c_int v\<rparr>) \<and>
      c_int_value (operator_type_field (snd (operator_type_set ope (PyStr s)))) = v \<and>
      operator_type (snd (operator_type_set ope (PyStr s))) = v)"
  by (auto simp: REBX_FORCE_TYPE_def REBX_OPERATOR_TYPE_def lower_keys force_type_def
      operator_type_def c_int_value_def c_int_def)

theorem type_setters_encode_witness:
  "(''vel'', 2) \<in> set REBX_FORCE_TYPE \<and> lower ''Vel'' = lower ''vel'' \<and>
   force_type_set \<lparr>force_type_field = 0\<rparr> (PyStr ''Vel'') = (Inr (), \<lparr>force_type_field = 2\<rparr>) \<and>
   force_type (snd (force_type_set \<lparr>force_type_field = 0\<rparr> (PyStr ''Vel''))) = 2 \<and>
   (''recorder'', 2) \<in> set REBX_OPERATOR_TYPE \<and> lower ''RECORDER'' = lower ''recorder'' \<and>
   operator_type_set \<lparr>operator_type_field = 0\<rparr> (PyStr ''RECORDER'') =
     (Inr (), \<lparr>operator_type_field = 2\<rparr>) \<and>
   operator_type (snd (operator_type_set \<lparr>operator_type_field = 0\<rparr> (PyStr ''RECORDER''))) = 2"
proof -
  have kf: "(''vel'', 2) \<in> set REBX_FORCE_TYPE"
    by (simp add: REBX_FORCE_TYPE_def)
  have ko: "(''recorder'', 2) \<in> set REBX_OPERATOR_TYPE"
    by (simp add: REBX_OPERATOR_TYPE_def)
  have lf: "lower ''Vel'' = lower ''vel''" by code_simp
  have lo: "lower ''RECORDER'' = lower ''recorder''" by code_simp
  have c2: "c_int 2 = 2" by (simp add: c_int_def)
  from type_setters_encode [of "''vel''" 2 "''Vel''" "\<lparr>force_type_field = 0\<rparr>"] kf lf
  have f: "force_type_set \<lparr>force_type_field = 0\<rparr> (PyStr ''Vel'') =
             (Inr (), \<lparr>force_type_field = 0\<rparr>\<lparr>force_type_field := c_int 2\<rparr>) \<and>
           force_type (snd (force_type_set \<lparr>force_type_field = 0\<rparr> (PyStr ''Vel''))) = 2"
    by blast
  from type_setters_encode [of "''recorder''" 2 "''RECORDER''" _ "\<lparr>operator_type_field = 0\<rparr>"] ko lo
  have ot: "operator_type_set \<lparr>operator_type_field = 0\<rparr> (PyStr ''RECORDER'') =
             (Inr (), \<lparr>operator_type_field = 0\<rparr>\<lparr>operator_type_field := c_int 2\<rparr>) \<and>
           operator_type (snd (operator_type_set \<lparr>operator_type_field = 0\<rparr> (PyStr ''RECORDER''))) = 2"
    by blast
  from f have f1: "force_type_set \<lparr>force_type_field = 0\<rparr> (PyStr ''Vel'') = (Inr (), \<lparr>force_type_field = 2\<rparr>)"
    by (simp add: c2)
  from ot have o1: "operator_type_set \<lparr>operator_type_field = 0\<rparr> (PyStr ''RECORDER'') =
     (Inr (), \<lparr>operator_type_field = 2\<rparr>)"
    by (simp add: c2)
  show ?thesis
    by (intro conjI kf ko lf lo f1 o1 conjunct2 [OF f] conjunct2 [OF ot])
qed

text \<open>
  C9. With a NULL pointer \<^verbatim>\<open>get_effect\<close> should warn and return \<^verbatim>\<open>None\<close>, and with any other
  pointer return the effect. The code does neither: whatever the native lookup would
  return, the call raises \<^verbatim>\<open>NameError\<close> on line 147 before the lookup is made, and issues no
  warning.
\<close>

theorem get_effect_name_error:
  "get_effect ''gr'' (NULL :: nat pointer) = (Inl (NameError ''Effect''), []) \<and>
   get_effect ''gr'' (Ptr (5 :: nat)) = (Inl (NameError ''Effect''), [])"
  by (simp add: get_effect_def Effect_unbound)

end
